theory Spec2Isabelle
  imports Complex_Main "HOL-Library.AList" "HOL-Library.Sublist"
begin

section \<open>Values, errors and the upstream collaborator\<close>

text \<open>
  The module \<open>webcompat/api/endpoints.py\<close> is a set of Flask view functions. Each one reads
  the request (query arguments, body, method), the logged-in user \<open>g.user\<close> and the
  application configuration, and either aborts or delegates to \<open>api_request\<close>. The model
  passes all of these as arguments, returns raised exceptions as values, and returns the
  list of \<open>api_request\<close> calls a view made next to its result.
\<close>

text \<open>Values stored in a parameter dictionary: query arguments are strings, the values the
  views add themselves (\<open>100\<close>, milestone ids) are integers.\<close>

datatype pval = PStr string | PInt int

text \<open>Python truth value of a parameter value.\<close>

fun truthy :: "pval \<Rightarrow> bool" where
  "truthy (PStr s) = (s \<noteq> [])"
| "truthy (PInt n) = (n \<noteq> 0)"

fun truthy_opt :: "pval option \<Rightarrow> bool" where
  "truthy_opt None = False"
| "truthy_opt (Some v) = truthy v"

text \<open>What \<open>json.loads\<close> returns. A float is kept as the rational it denotes; \<open>NaN\<close> and
  the infinities are one extra value, equal to no integer.\<close>

datatype json =
    JNull
  | JBool bool
  | JInt int
  | JFloat rat
  | JNonFinite
  | JStr string
  | JList "json list"
  | JDict "(string \<times> json) list"

text \<open>Exceptions leaving a view: \<open>abort(code)\<close>, and the uncaught Python errors.\<close>

datatype error = Abort nat | KeyError string | TypeError | ValueError

type_synonym headers = "(string \<times> string) list"

text \<open>The triple \<open>(content, status_code, headers)\<close> that \<open>api_request\<close> returns.\<close>

type_synonym response = "string \<times> int \<times> headers"

section \<open>The parameter dictionary (werkzeug MultiDict)\<close>

text \<open>
  \<open>request.args\<close> is a \<open>MultiDict\<close>: every key holds a list of values. The views use
  \<open>get\<close> and \<open>[]\<close> (the first value of the key), \<open>[]=\<close> (replaces the key's list by one
  value), \<open>add\<close> (appends a value to the key's list) and \<open>update\<close> (which, on a
  \<open>MultiDict\<close>, adds every item of its argument: it extends the lists and replaces nothing).
\<close>

type_synonym multidict = "(string \<times> pval list) list"

type_synonym request_args = "(string \<times> string list) list"

definition md_copy :: "request_args \<Rightarrow> multidict" where
  "md_copy args = map (\<lambda>(k, vs). (k, map PStr vs)) args"

definition md_getlist :: "multidict \<Rightarrow> string \<Rightarrow> pval list" where
  "md_getlist md k = (case map_of md k of None \<Rightarrow> [] | Some vs \<Rightarrow> vs)"

definition md_get :: "multidict \<Rightarrow> string \<Rightarrow> pval option" where
  "md_get md k = (case md_getlist md k of [] \<Rightarrow> None | v # _ \<Rightarrow> Some v)"

definition md_getitem :: "multidict \<Rightarrow> string \<Rightarrow> error + pval" where
  "md_getitem md k = (case md_get md k of None \<Rightarrow> Inl (KeyError k) | Some v \<Rightarrow> Inr v)"

definition md_setitem :: "multidict \<Rightarrow> string \<Rightarrow> pval \<Rightarrow> multidict" where
  "md_setitem md k v = AList.update k [v] md"

definition md_add :: "multidict \<Rightarrow> string \<Rightarrow> pval \<Rightarrow> multidict" where
  "md_add md k v = AList.update k (md_getlist md k @ [v]) md"

definition md_update :: "multidict \<Rightarrow> (string \<times> pval) list \<Rightarrow> multidict" where
  "md_update md kvs = fold (\<lambda>(k, v) m. md_add m k v) kvs md"

text \<open>String concatenation \<open>v + s\<close> where \<open>v\<close> came out of a parameter dictionary.\<close>

fun py_add_str :: "pval \<Rightarrow> string \<Rightarrow> error + pval" where
  "py_add_str (PStr s) t = Inr (PStr (s @ t))"
| "py_add_str (PInt n) t = Inl TypeError"

section \<open>Configuration and module constants\<close>

record status_def =
  status_id :: int
  status_state :: string

record config =
  ISSUES_REPO_URI :: string
  PRIVATE_REPO_URI :: string
  AUTOCLOSED_MILESTONE_ID :: int
  STATUSES :: "(string \<times> status_def) list"
  OPEN_STATUSES :: "string list"

definition JSON_MIME_HTML :: string where
  "JSON_MIME_HTML = ''application/vnd.github.v3.html+json''"

definition HTML_MIME :: string where
  "HTML_MIME = ''text/html''"

definition ISSUES_PATH :: "config \<Rightarrow> string" where
  "ISSUES_PATH cfg = ISSUES_REPO_URI cfg"

definition PRIVATE_ISSUES_PATH :: "config \<Rightarrow> string" where
  "PRIVATE_ISSUES_PATH cfg = PRIVATE_REPO_URI cfg"

text \<open>\<open>ISSUES_PATH[:-7]\<close>: all but the last seven characters, empty for a shorter string.\<close>

definition REPO_PATH :: "config \<Rightarrow> string" where
  "REPO_PATH cfg = take (length (ISSUES_PATH cfg) - 7) (ISSUES_PATH cfg)"

text \<open>One call of \<open>api_request(method, path, params=None, data=None, mime_type=...)\<close>;
  an argument the view leaves out is \<open>None\<close>.\<close>

record api_call =
  call_method :: string
  call_path :: string
  call_params :: "multidict option"
  call_data :: "string option"
  call_mime :: "string option"

type_synonym outcome = "(error + response) \<times> api_call list"

text \<open>Decimal rendering of the issue number matched by \<open><int:number>\<close>.\<close>

fun str_nat :: "nat \<Rightarrow> string" where
  "str_nat n = (if n < 10 then [char_of (48 + n)]
                else str_nat (n div 10) @ [char_of (48 + n mod 10)])"

declare str_nat.simps [simp del]

section \<open>Issue and edit views\<close>

definition proxy_issue :: "config \<Rightarrow> (api_call \<Rightarrow> response) \<Rightarrow> nat \<Rightarrow> outcome" where
  "proxy_issue cfg api_request number =
     (let path = ''repos/'' @ ISSUES_PATH cfg @ ''/'' @ str_nat number;
          c = \<lparr>call_method = ''get'', call_path = path, call_params = None,
               call_data = None, call_mime = Some JSON_MIME_HTML\<rparr>
      in (Inr (api_request c), [c]))"

text \<open>Keys of a Python dict given as an association list, and the comprehension
  \<open>[(STATUSES[status]['id'], STATUSES[status]['state']) for status in STATUSES]\<close>.\<close>

definition dict_keys :: "(string \<times> 'a) list \<Rightarrow> string list" where
  "dict_keys d = remdups (map fst d)"

definition valid_statuses :: "(string \<times> status_def) list \<Rightarrow> (int \<times> string) list" where
  "valid_statuses S =
     List.map_filter
       (\<lambda>status. map_option (\<lambda>d. (status_id d, status_state d)) (map_of S status))
       (dict_keys S)"

text \<open>\<open>patch_data[key]\<close>: a missing key of a dict raises \<open>KeyError\<close>; a list, a string,
  a number, a boolean and \<open>None\<close> raise \<open>TypeError\<close> for a string subscript.\<close>

fun py_getitem :: "json \<Rightarrow> string \<Rightarrow> error + json" where
  "py_getitem (JDict kvs) k = (case map_of kvs k of None \<Rightarrow> Inl (KeyError k) | Some v \<Rightarrow> Inr v)"
| "py_getitem j k = Inl TypeError"

text \<open>\<open>len(patch_data)\<close>; numbers, booleans and \<open>None\<close> have no length.\<close>

fun py_len :: "json \<Rightarrow> error + nat" where
  "py_len (JDict kvs) = Inr (length (dict_keys kvs))"
| "py_len (JList xs) = Inr (length xs)"
| "py_len (JStr s) = Inr (length s)"
| "py_len j = Inl TypeError"

text \<open>Python's \<open>==\<close> between a decoded JSON value and a configured integer or string:
  numbers compare by value across \<open>int\<close>, \<open>float\<close> and \<open>bool\<close>.\<close>

fun py_eq_int :: "json \<Rightarrow> int \<Rightarrow> bool" where
  "py_eq_int (JInt j) i = (j = i)"
| "py_eq_int (JBool b) i = ((if b then 1 else 0) = i)"
| "py_eq_int (JFloat r) i = (r = of_int i)"
| "py_eq_int j i = False"

fun py_eq_str :: "json \<Rightarrow> string \<Rightarrow> bool" where
  "py_eq_str (JStr t) s = (t = s)"
| "py_eq_str j s = False"

text \<open>\<open>data_check in valid_statuses\<close>: some element of the list equals the pair.\<close>

fun py_in :: "json \<times> json \<Rightarrow> (int \<times> string) list \<Rightarrow> bool" where
  "py_in dc [] = False"
| "py_in (m, s) ((i, st) # vs) = ((py_eq_int m i \<and> py_eq_str s st) \<or> py_in (m, s) vs)"

definition edit_issue ::
  "config \<Rightarrow> (string \<Rightarrow> json option) \<Rightarrow> (api_call \<Rightarrow> response) \<Rightarrow>
   string option \<Rightarrow> nat \<Rightarrow> string \<Rightarrow> outcome" where
  "edit_issue cfg json_loads api_request user number request_data =
     (if user = None then (Inl (Abort 403), [])
      else
        let path = ''repos/'' @ ISSUES_PATH cfg @ ''/'' @ str_nat number in
        case json_loads request_data of
          None \<Rightarrow> (Inl ValueError, [])
        | Some patch_data \<Rightarrow>
            let valid = valid_statuses (STATUSES cfg) in
            (case py_getitem patch_data ''milestone'' of
               Inl e \<Rightarrow> (Inl e, [])
             | Inr m \<Rightarrow>
                 (case py_getitem patch_data ''state'' of
                    Inl e \<Rightarrow> (Inl e, [])
                  | Inr s \<Rightarrow>
                      if py_in (m, s) valid \<and> py_len patch_data = Inr 2 then
                        let c = \<lparr>call_method = ''patch'', call_path = path,
                                 call_params = None, call_data = Some request_data,
                                 call_mime = None\<rparr>;
                            (content, status_code, hdrs) = api_request c
                        in (Inr (content, status_code,
                                 [(''content-type'', JSON_MIME_HTML)]), [c])
                      else (Inl (Abort 403), []))))"

section \<open>Listing views\<close>

text \<open>The decorator \<open>@limiter.limit('30/minute', key_func=lambda: session.get('username',
  'proxy-user'))\<close> of the search view. The limiter extension keeps the counters, so its
  verdict for a limit and a key (true: the request is within the limit) is a parameter.
  The key is the user name of the session, or \<open>proxy-user\<close> for a session without one. A
  request over the limit is answered with 429 and the body of the view does not run.\<close>

definition limiter_key :: "string option \<Rightarrow> string" where
  "limiter_key session_username =
     (case session_username of None \<Rightarrow> ''proxy-user'' | Some name \<Rightarrow> name)"

definition limiter_limit ::
  "(string \<Rightarrow> string \<Rightarrow> bool) \<Rightarrow> string \<Rightarrow> string \<Rightarrow> outcome \<Rightarrow> outcome" where
  "limiter_limit within_limit limit key view =
     (if within_limit limit key then view else (Inl (Abort 429), []))"

text \<open>The search view. It is also called from \<open>proxy_issues\<close> with both arguments given;
  as a route of its own it receives \<open>None\<close> twice. \<open>normalize_api_params\<close> is a helper
  of another module and is a parameter of the view.\<close>

definition get_search_results ::
  "config \<Rightarrow> (string \<Rightarrow> string \<Rightarrow> bool) \<Rightarrow> string option \<Rightarrow> (multidict \<Rightarrow> multidict) \<Rightarrow>
   (api_call \<Rightarrow> response) \<Rightarrow> pval option \<Rightarrow> multidict option \<Rightarrow> request_args \<Rightarrow> outcome" where
  "get_search_results cfg within_limit session_username normalise api_request
       query_string params args =
     limiter_limit within_limit ''30/minute'' (limiter_key session_username)
     (let params = (case params of
                      None \<Rightarrow> md_copy args
                    | Some p \<Rightarrow> if p = [] then md_copy args else p);
          query_string = (case query_string of
                            None \<Rightarrow> md_get params ''q''
                          | Some q \<Rightarrow> if truthy q then Some q else md_get params ''q'')
      in case query_string of
           None \<Rightarrow> (Inl (Abort 404), [])
         | Some q \<Rightarrow>
             if \<not> truthy q then (Inl (Abort 404), [])
             else
               (case py_add_str q ('' repo:'' @ REPO_PATH cfg) of
                  Inl e \<Rightarrow> (Inl e, [])
                | Inr query_string \<Rightarrow>
                    let params = md_setitem params ''q'' query_string in
                    (case md_getitem params ''q'' of
                       Inl e \<Rightarrow> (Inl e, [])
                     | Inr v \<Rightarrow>
                         (case py_add_str v '' is:issue'' of
                            Inl e \<Rightarrow> (Inl e, [])
                          | Inr v' \<Rightarrow>
                              let params = md_setitem params ''q'' v';
                                  params = normalise params;
                                  c = \<lparr>call_method = ''get'', call_path = ''search/issues'',
                                       call_params = Some params, call_data = None,
                                       call_mime = Some JSON_MIME_HTML\<rparr>
                              in (Inr (api_request c), [c])))))"


definition proxy_issues ::
  "config \<Rightarrow> (string \<Rightarrow> string \<Rightarrow> bool) \<Rightarrow> string option \<Rightarrow> (multidict \<Rightarrow> multidict) \<Rightarrow>
   (api_call \<Rightarrow> response) \<Rightarrow> string option \<Rightarrow> request_args \<Rightarrow> outcome" where
  "proxy_issues cfg within_limit session_username normalise api_request user args =
     (let params = md_copy args in
      if user \<noteq> None \<and> truthy_opt (md_get params ''q'') then
        get_search_results cfg within_limit session_username normalise api_request
          (md_get params ''q'') (Some params) args
      else if truthy_opt (md_get params ''q'') then (Inl (Abort 404), [])
      else
        let path = ''repos/'' @ ISSUES_PATH cfg;
            c = \<lparr>call_method = ''get'', call_path = path, call_params = Some params,
                 call_data = None, call_mime = None\<rparr>
        in (Inr (api_request c), [c]))"

definition proxy_autoclosed ::
  "config \<Rightarrow> (api_call \<Rightarrow> response) \<Rightarrow> string option \<Rightarrow> request_args \<Rightarrow> outcome" where
  "proxy_autoclosed cfg api_request user args =
     (let params = md_add (md_copy args) ''milestone'' (PInt (AUTOCLOSED_MILESTONE_ID cfg)) in
      if user = None then (Inl (Abort 404), [])
      else
        let path = ''repos/'' @ PRIVATE_ISSUES_PATH cfg;
            c = \<lparr>call_method = ''get'', call_path = path, call_params = Some params,
                 call_data = None, call_mime = None\<rparr>
        in (Inr (api_request c), [c]))"

definition get_user_activity_issues ::
  "config \<Rightarrow> (api_call \<Rightarrow> response) \<Rightarrow> string option \<Rightarrow> request_args \<Rightarrow>
   string \<Rightarrow> string \<Rightarrow> outcome" where
  "get_user_activity_issues cfg api_request user args username parameter =
     (if user = None then (Inl (Abort 401), [])
      else
        let params = md_copy args;
            params = md_setitem params ''state'' (PStr ''all'');
            params = (if parameter = ''needsinfo''
                      then md_setitem params ''labels'' (PStr (''status-needsinfo-'' @ username))
                      else md_setitem params parameter (PStr username));
            path = ''repos/'' @ ISSUES_PATH cfg;
            c = \<lparr>call_method = ''get'', call_path = path, call_params = Some params,
                 call_data = None, call_mime = None\<rparr>
        in (Inr (api_request c), [c]))"

text \<open>\<open>STATUSES[issue_category]['id']\<close> raises \<open>KeyError\<close> for a name the table lacks.\<close>

definition get_issue_category ::
  "config \<Rightarrow> (api_call \<Rightarrow> response) \<Rightarrow> request_args \<Rightarrow> string \<Rightarrow> outcome" where
  "get_issue_category cfg api_request args issue_category =
     (let category_list = OPEN_STATUSES cfg;
          issues_path = ''repos/'' @ ISSUES_PATH cfg;
          params = md_copy args
      in if issue_category \<in> set category_list then
           (case map_of (STATUSES cfg) issue_category of
              None \<Rightarrow> (Inl (KeyError issue_category), [])
            | Some d \<Rightarrow>
                let params = md_add params ''milestone'' (PInt (status_id d));
                    c = \<lparr>call_method = ''get'', call_path = issues_path,
                         call_params = Some params, call_data = None, call_mime = None\<rparr>
                in (Inr (api_request c), [c]))
         else if issue_category = ''closed'' then
           let params = md_setitem params ''state'' (PStr ''closed'');
               c = \<lparr>call_method = ''get'', call_path = issues_path,
                    call_params = Some params, call_data = None, call_mime = None\<rparr>
           in (Inr (api_request c), [c])
         else (Inl (Abort 404), []))"

section \<open>Comments and labels\<close>

text \<open>The objects compared in \<open>comments_status != 304\<close>. \<open>comments_data\<close> is the triple
  returned by \<open>api_request\<close>; \<open>comments_data[1:2]\<close> is a slice of it, hence a tuple.
  Python's \<open>!=\<close> between objects of different types is true.\<close>

datatype pyobj = OStr string | OInt int | OHeaders headers | OTuple "pyobj list"

definition response_tuple :: "response \<Rightarrow> pyobj list" where
  "response_tuple r = (case r of (content, status_code, hdrs) \<Rightarrow>
                         [OStr content, OInt status_code, OHeaders hdrs])"

definition py_slice :: "'a list \<Rightarrow> nat \<Rightarrow> nat \<Rightarrow> 'a list" where
  "py_slice xs i j = take (j - i) (drop i xs)"

fun py_ne :: "pyobj \<Rightarrow> pyobj \<Rightarrow> bool" where
  "py_ne (OStr a) (OStr b) = (a \<noteq> b)"
| "py_ne (OInt a) (OInt b) = (a \<noteq> b)"
| "py_ne (OHeaders a) (OHeaders b) = (a \<noteq> b)"
| "py_ne (OTuple a) (OTuple b) = (a \<noteq> b)"
| "py_ne x y = True"

text \<open>\<open>get_comment_data\<close>, \<open>get_html_comments\<close> and \<open>get_response_headers\<close> are helpers of
  other modules and are parameters.\<close>

definition proxy_comments ::
  "config \<Rightarrow> (string \<Rightarrow> string) \<Rightarrow> (response \<Rightarrow> response) \<Rightarrow>
   (response \<Rightarrow> string \<Rightarrow> headers) \<Rightarrow> (api_call \<Rightarrow> response) \<Rightarrow>
   string \<Rightarrow> string option \<Rightarrow> request_args \<Rightarrow> nat \<Rightarrow> string \<Rightarrow> outcome" where
  "proxy_comments cfg get_comment_data get_html_comments get_response_headers api_request
       request_method user args number request_data =
     (let params = md_copy args;
          path = ''repos/'' @ ISSUES_PATH cfg @ ''/'' @ str_nat number @ ''/comments''
      in if request_method = ''POST'' \<and> user \<noteq> None then
           let c = \<lparr>call_method = ''post'', call_path = path, call_params = Some params,
                    call_data = Some (get_comment_data request_data),
                    call_mime = Some JSON_MIME_HTML\<rparr>;
               new_comment = api_request c
           in (Inr (get_html_comments new_comment), [c])
         else
           let params = md_update params [(''per_page'', PInt 100)];
               c = \<lparr>call_method = ''get'', call_path = path, call_params = Some params,
                    call_data = None, call_mime = Some JSON_MIME_HTML\<rparr>;
               comments_data = api_request c;
               comments_status = OTuple (py_slice (response_tuple comments_data) 1 2)
           in if py_ne comments_status (OInt 304) then
                (Inr (get_html_comments comments_data), [c])
              else
                (Inr ([], 304, get_response_headers comments_data HTML_MIME), [c]))"

definition modify_labels ::
  "config \<Rightarrow> (api_call \<Rightarrow> response) \<Rightarrow> string option \<Rightarrow> nat \<Rightarrow> string \<Rightarrow> outcome" where
  "modify_labels cfg api_request user number request_data =
     (if user \<noteq> None then
        let path = ''repos/'' @ ISSUES_PATH cfg @ ''/'' @ str_nat number @ ''/labels'';
            c = \<lparr>call_method = ''put'', call_path = path, call_params = None,
                 call_data = Some request_data, call_mime = None\<rparr>
        in (Inr (api_request c), [c])
      else (Inl (Abort 403), []))"

definition get_repo_labels ::
  "config \<Rightarrow> (api_call \<Rightarrow> response) \<Rightarrow> request_args \<Rightarrow> outcome" where
  "get_repo_labels cfg api_request args =
     (let params = md_copy args;
          path = ''repos/'' @ REPO_PATH cfg @ ''/labels'';
          c = \<lparr>call_method = ''get'', call_path = path, call_params = Some params,
               call_data = None, call_mime = None\<rparr>
      in (Inr (api_request c), [c]))"

section \<open>Occurrences of a qualifier in a query string\<close>


section \<open>A concrete configuration and concrete collaborators\<close>

text \<open>A configuration of the shape the application uses, and simple stand-ins for the
  collaborators, for evaluating the views on concrete requests.\<close>

definition example_config :: config where
  "example_config =
     \<lparr>ISSUES_REPO_URI = ''webcompat/webcompat-tests/issues'',
      PRIVATE_REPO_URI = ''webcompat/webcompat-tests-private/issues'',
      AUTOCLOSED_MILESTONE_ID = 15,
      STATUSES = [(''needsinfo'', \<lparr>status_id = 2, status_state = ''open''\<rparr>),
                  (''fixed'', \<lparr>status_id = 7, status_state = ''closed''\<rparr>)],
      OPEN_STATUSES = [''needsinfo'']\<rparr>"

definition upstream_ok :: "api_call \<Rightarrow> response" where
  "upstream_ok c = (''[]'', 200, [])"

definition upstream_not_modified :: "api_call \<Rightarrow> response" where
  "upstream_not_modified c = ([], 304, [(''etag'', ''abc'')])"

definition render_html :: "response \<Rightarrow> response" where
  "render_html r = (case r of (content, status_code, hdrs) \<Rightarrow>
     (''<div>'' @ content @ ''</div>'', status_code, [(''content-type'', HTML_MIME)]))"

definition relay_headers :: "response \<Rightarrow> string \<Rightarrow> headers" where
  "relay_headers r mime = (case r of (content, status_code, hdrs) \<Rightarrow>
     (''content-type'', mime) # hdrs)"

definition loads_open :: "string \<Rightarrow> json option" where
  "loads_open s = Some (JDict [(''milestone'', JInt 2), (''state'', JStr ''open'')])"

definition loads_no_state :: "string \<Rightarrow> json option" where
  "loads_no_state s = Some (JDict [(''milestone'', JInt 2)])"

definition loads_float :: "string \<Rightarrow> json option" where
  "loads_float s = Some (JDict [(''milestone'', JFloat 2), (''state'', JStr ''open'')])"

section \<open>Facts about the parameter dictionary\<close>

lemma md_getlist_setitem:
  "md_getlist (md_setitem md k v) k' = (if k' = k then [v] else md_getlist md k')"
  by (simp add: md_getlist_def md_setitem_def update_conv')

lemma md_getlist_add:
  "md_getlist (md_add md k v) k' = (if k' = k then md_getlist md k @ [v] else md_getlist md k')"
  by (simp add: md_getlist_def md_add_def update_conv')

lemma md_get_setitem:
  "md_get (md_setitem md k v) k' = (if k' = k then Some v else md_get md k')"
  by (simp add: md_get_def md_getlist_setitem)

lemma md_getitem_setitem: "md_getitem (md_setitem md k v) k = Inr v"
  by (simp add: md_getitem_def md_get_setitem)

lemma md_setitem_twice: "md_setitem (md_setitem md k v) k w = md_setitem md k w"
  by (simp add: md_setitem_def)

lemma md_update_single: "md_update md [(k, v)] = md_add md k v"
  by (simp add: md_update_def)

text \<open>A copy of the query arguments holds strings only.\<close>

lemma md_get_copy_cases:
  "md_get (md_copy args) k = None \<or> (\<exists>s. md_get (md_copy args) k = Some (PStr s))"
proof (cases "map_of args k")
  case None
  then have "map_of (md_copy args) k = None"
    by (induction args) (auto simp: md_copy_def split: if_splits)
  then show ?thesis by (simp add: md_get_def md_getlist_def)
next
  case (Some vs)
  then have "map_of (md_copy args) k = Some (map PStr vs)"
    by (induction args) (auto simp: md_copy_def split: if_splits)
  then show ?thesis by (cases vs) (simp_all add: md_get_def md_getlist_def)
qed

lemma md_get_Some_nonempty: "md_get p k = Some v \<Longrightarrow> p \<noteq> []"
  by (auto simp: md_get_def md_getlist_def)

section \<open>Facts about the views\<close>

lemma get_search_results_over_limit:
  assumes "\<not> within_limit ''30/minute'' (limiter_key session_username)"
  shows "get_search_results cfg within_limit session_username normalise api_request
           query_string params args = (Inl (Abort 429), [])"
  using assms by (simp add: get_search_results_def limiter_limit_def)

lemma get_search_results_given:
  assumes "s \<noteq> []" and "p \<noteq> []"
    and "within_limit ''30/minute'' (limiter_key session_username)"
  shows "get_search_results cfg within_limit session_username normalise api_request
           (Some (PStr s)) (Some p) args =
     (let c = \<lparr>call_method = ''get'', call_path = ''search/issues'',
               call_params = Some (normalise
                 (md_setitem p ''q'' (PStr (s @ '' repo:'' @ REPO_PATH cfg @ '' is:issue'')))),
               call_data = None, call_mime = Some JSON_MIME_HTML\<rparr>
      in (Inr (api_request c), [c]))"
  using assms
  by (simp add: get_search_results_def limiter_limit_def Let_def md_getitem_setitem
      md_setitem_twice)



text \<open>Whatever status the upstream call returns, the branch of \<open>proxy_comments\<close> that is not
  an authenticated POST renders the upstream response: the slice \<open>comments_data[1:2]\<close>
  is a tuple, and a tuple differs from \<open>304\<close>.\<close>

lemma proxy_comments_get_branch:
  assumes "\<not> (request_method = ''POST'' \<and> user \<noteq> None)"
  shows "proxy_comments cfg get_comment_data get_html_comments get_response_headers api_request
           request_method user args number request_data =
     (let c = \<lparr>call_method = ''get'',
               call_path = ''repos/'' @ ISSUES_PATH cfg @ ''/'' @ str_nat number @ ''/comments'',
               call_params = Some (md_add (md_copy args) ''per_page'' (PInt 100)),
               call_data = None, call_mime = Some JSON_MIME_HTML\<rparr>
      in (Inr (get_html_comments (api_request c)), [c]))"
  using assms
  by (auto simp add: proxy_comments_def Let_def md_update_single)

text \<open>The values of \<open>per_page\<close> in the call of that branch: the caller's values, then
  \<open>100\<close>. A single-valued read gives \<open>100\<close> only when the caller sent none.\<close>

lemma comments_per_page_default:
  assumes "\<not> (request_method = ''POST'' \<and> user \<noteq> None)"
  shows "\<exists>c params.
     snd (proxy_comments cfg get_comment_data get_html_comments get_response_headers api_request
           request_method user args number request_data) = [c]
     \<and> call_params c = Some params
     \<and> md_getlist params ''per_page'' = md_getlist (md_copy args) ''per_page'' @ [PInt 100]
     \<and> md_get params ''per_page'' =
         (case md_get (md_copy args) ''per_page'' of None \<Rightarrow> Some (PInt 100) | Some v \<Rightarrow> Some v)"
  using assms
  by (auto simp add: proxy_comments_get_branch Let_def md_getlist_add md_get_def
      split: list.splits)

lemma py_in_iff:
  "py_in (m, s) vs \<longleftrightarrow> (\<exists>(i, st) \<in> set vs. py_eq_int m i \<and> py_eq_str s st)"
  by (induction vs) auto

text \<open>For a body of the documented types the membership test is plain membership.\<close>

lemma py_in_typed: "py_in (JInt i, JStr st) vs \<longleftrightarrow> (i, st) \<in> set vs"
  by (induction vs) auto

text \<open>Python's \<open>==\<close> against a configured integer or string, spelled out.\<close>

lemma py_eq_int_iff:
  "py_eq_int m i \<longleftrightarrow>
     m = JInt i \<or> m = JFloat (of_int i) \<or> (m = JBool True \<and> i = 1) \<or> (m = JBool False \<and> i = 0)"
  by (cases m) auto

lemma py_eq_str_iff: "py_eq_str s st \<longleftrightarrow> s = JStr st"
  by (cases s) auto

lemma set_valid_statuses:
  "set (valid_statuses S) = {(status_id d, status_state d) | d name. map_of S name = Some d}"
proof -
  have "x \<in> fst ` set S" if "map_of S x = Some d" for x d
    using that by (metis map_of_SomeD fst_conv image_eqI)
  then show ?thesis
    by (force simp: valid_statuses_def dict_keys_def List.map_filter_def)
qed

lemma str_nat_5: "str_nat 5 = [CHR 0x35]"
  by code_simp

lemma example_issues_path: "ISSUES_PATH example_config = ''webcompat/webcompat-tests/issues''"
  by (simp add: ISSUES_PATH_def example_config_def)

lemma example_repo_path: "REPO_PATH example_config = ''webcompat/webcompat-tests''"
  by (simp add: REPO_PATH_def ISSUES_PATH_def example_config_def)

section \<open>Facts about occurrences\<close>





section \<open>Editing an issue\<close>

text \<open>
  The membership test \<open>data_check in valid_statuses\<close> compares with Python's \<open>==\<close>, under
  which numbers are equal by value. A body whose milestone is the float \<open>2.0\<close> is
  forwarded for the configured pair \<open>(2, 'open')\<close>, although \<open>(2.0, 'open')\<close> is not an
  entry of the configured table.
\<close>

theorem edit_issue_float_milestone_forwarded:
  "edit_issue example_config loads_float upstream_ok (Some ''alice'') 12 ''body'' =
     (Inr (''[]'', 200, [(''content-type'', ''application/vnd.github.v3.html+json'')]),
      [\<lparr>call_method = ''patch'',
        call_path = ''repos/webcompat/webcompat-tests/issues/12'',
        call_params = None, call_data = Some ''body'', call_mime = None\<rparr>])
   \<and> valid_statuses (STATUSES example_config) = [(2, ''open''), (7, ''closed'')]
   \<and> (JFloat 2, JStr ''open'')
       \<notin> set (map (\<lambda>(i, st). (JInt i, JStr st)) (valid_statuses (STATUSES example_config)))"
proof -
  have v: "valid_statuses (STATUSES example_config) = [(2, ''open''), (7, ''closed'')]"
    by (simp add: valid_statuses_def dict_keys_def example_config_def)
  have n: "str_nat 12 = ''12''" by code_simp
  show ?thesis
    by (simp add: edit_issue_def v n loads_float_def upstream_ok_def dict_keys_def
        example_issues_path JSON_MIME_HTML_def Let_def)
qed

text \<open>
  Claim C2, amended. An authenticated edit whose body decodes to an object with the keys
  \<open>milestone\<close> and \<open>state\<close> is forwarded upstream, in exactly one PATCH call carrying the
  raw body, if and only if the object has exactly two keys and some entry of the
  configured status table has the body's state as its state string and an id that the
  body's milestone equals by value: the milestone is that integer, or the float of that
  value, or \<open>true\<close> for the id 1, or \<open>false\<close> for the id 0. Every other such body is
  answered with 403 and no upstream call. For an integer milestone this is plain
  membership of the pair in the table (\<open>py_in_typed\<close>).
\<close>

theorem edit_issue_forwarded_iff_allowed:
  assumes "json_loads request_data = Some (JDict kvs)"
    and "map_of kvs ''milestone'' = Some m"
    and "map_of kvs ''state'' = Some s"
  shows "edit_issue cfg json_loads api_request (Some u) number request_data =
     (if card (fst ` set kvs) = 2
         \<and> (\<exists>name d. map_of (STATUSES cfg) name = Some d
                \<and> s = JStr (status_state d)
                \<and> (m = JInt (status_id d) \<or> m = JFloat (of_int (status_id d))
                    \<or> (m = JBool True \<and> status_id d = 1)
                    \<or> (m = JBool False \<and> status_id d = 0)))
      then
        (let c = \<lparr>call_method = ''patch'',
                  call_path = ''repos/'' @ ISSUES_PATH cfg @ ''/'' @ str_nat number,
                  call_params = None, call_data = Some request_data, call_mime = None\<rparr>
         in (Inr (fst (api_request c), fst (snd (api_request c)),
                  [(''content-type'', JSON_MIME_HTML)]), [c]))
      else (Inl (Abort 403), []))"
proof -
  define allowed where
    "allowed \<longleftrightarrow> (\<exists>name d. map_of (STATUSES cfg) name = Some d
                \<and> s = JStr (status_state d)
                \<and> (m = JInt (status_id d) \<or> m = JFloat (of_int (status_id d))
                    \<or> (m = JBool True \<and> status_id d = 1)
                    \<or> (m = JBool False \<and> status_id d = 0)))"
  have "py_in (m, s) (valid_statuses (STATUSES cfg)) \<longleftrightarrow>
          (\<exists>name d. map_of (STATUSES cfg) name = Some d
             \<and> py_eq_int m (status_id d) \<and> py_eq_str s (status_state d))"
    unfolding py_in_iff set_valid_statuses by blast
  also have "\<dots> \<longleftrightarrow> allowed"
    unfolding allowed_def py_eq_int_iff py_eq_str_iff by blast
  finally have "py_in (m, s) (valid_statuses (STATUSES cfg)) \<longleftrightarrow> allowed" .
  moreover have "length (dict_keys kvs) = card (fst ` set kvs)"
    by (simp add: dict_keys_def length_remdups_card_conv)
  ultimately show ?thesis
    using assms unfolding allowed_def [symmetric]
    by (cases "api_request \<lparr>call_method = ''patch'',
                  call_path = ''repos/'' @ ISSUES_PATH cfg @ ''/'' @ str_nat number,
                  call_params = None, call_data = Some request_data, call_mime = None\<rparr>")
       (simp add: edit_issue_def Let_def)
qed

theorem edit_issue_forwarded_iff_allowed_witness:
  "edit_issue example_config loads_open upstream_ok (Some ''alice'') 12 ''body'' =
     (Inr (''[]'', 200, [(''content-type'', JSON_MIME_HTML)]),
      [\<lparr>call_method = ''patch'',
        call_path = ''repos/'' @ ISSUES_PATH example_config @ ''/'' @ str_nat 12,
        call_params = None, call_data = Some ''body'', call_mime = None\<rparr>])"
proof -
  have ex: "\<exists>name d. map_of (STATUSES example_config) name = Some d
             \<and> JStr ''open'' = JStr (status_state d)
             \<and> (JInt 2 = JInt (status_id d) \<or> JInt 2 = JFloat (of_int (status_id d))
                 \<or> (JInt 2 = JBool True \<and> status_id d = 1)
                 \<or> (JInt 2 = JBool False \<and> status_id d = 0))"
    by (rule exI [of _ "''needsinfo''"],
        rule exI [of _ "\<lparr>status_id = 2, status_state = ''open''\<rparr>"])
       (simp add: example_config_def)
  have len: "card (fst ` set [(''milestone'', JInt 2), (''state'', JStr ''open'')]) = 2"
    by simp
  have loads: "loads_open ''body''
                 = Some (JDict [(''milestone'', JInt 2), (''state'', JStr ''open'')])"
    by (simp add: loads_open_def)
  have m: "map_of [(''milestone'', JInt 2), (''state'', JStr ''open'')] ''milestone''
             = Some (JInt 2)"
    and s: "map_of [(''milestone'', JInt 2), (''state'', JStr ''open'')] ''state''
             = Some (JStr ''open'')"
    by simp_all
  show ?thesis
    using edit_issue_forwarded_iff_allowed [where json_loads = loads_open
        and request_data = "''body''"
        and kvs = "[(''milestone'', JInt 2), (''state'', JStr ''open'')]"
        and m = "JInt 2" and s = "JStr ''open''" and cfg = example_config
        and api_request = upstream_ok and u = "''alice''" and number = 12, OF loads m s]
      ex len
    by (simp add: upstream_ok_def Let_def)
qed

text \<open>
  Claim C10. An authenticated edit whose body is valid JSON but is not an object, or is an
  object without the key \<open>milestone\<close> or without the key \<open>state\<close>, fails with the error of
  the subscript (\<open>TypeError\<close> for a non-object, \<open>KeyError\<close> for the first missing key)
  before the allow-list is consulted: no upstream call is made and the answer is not the
  403 of the route.
\<close>

theorem edit_issue_missing_key_raises:
  assumes "json_loads request_data = Some j"
    and "\<forall>kvs. j = JDict kvs \<longrightarrow> map_of kvs ''milestone'' = None \<or> map_of kvs ''state'' = None"
  shows "edit_issue cfg json_loads api_request (Some u) number request_data =
           (Inl (case j of
                   JDict kvs \<Rightarrow> if map_of kvs ''milestone'' = None
                                then KeyError ''milestone'' else KeyError ''state''
                 | _ \<Rightarrow> TypeError), [])
         \<and> fst (edit_issue cfg json_loads api_request (Some u) number request_data)
             \<noteq> Inl (Abort 403)"
  using assms
  by (cases j) (auto simp: edit_issue_def Let_def split: option.splits)

theorem edit_issue_missing_key_raises_witness:
  "edit_issue example_config loads_no_state upstream_ok (Some ''alice'') 12 ''body'' =
     (Inl (KeyError ''state''), [])"
  using edit_issue_missing_key_raises [of loads_no_state "''body''"
      "JDict [(''milestone'', JInt 2)]" example_config upstream_ok "''alice''" 12]
  by (simp add: loads_no_state_def)

section \<open>Unauthenticated callers\<close>

text \<open>
  Claim C4. Without a logged-in user the private (autoclosed) listing aborts with 404, the
  user-activity listing with 401, the edit view with 403 and the label view with 403, and
  none of them calls upstream.
\<close>

theorem unauthenticated_rejected_without_call:
  "proxy_autoclosed cfg api_request None args = (Inl (Abort 404), [])
   \<and> get_user_activity_issues cfg api_request None args username parameter
       = (Inl (Abort 401), [])
   \<and> edit_issue cfg json_loads api_request None number request_data = (Inl (Abort 403), [])
   \<and> modify_labels cfg api_request None number request_data = (Inl (Abort 403), [])"
  by (simp add: proxy_autoclosed_def get_user_activity_issues_def edit_issue_def
      modify_labels_def Let_def)

section \<open>Listing by user activity\<close>

text \<open>
  The path segment \<open>parameter\<close> is a free string. For \<open>/issues/bob/state\<close> the view first
  sets \<open>state\<close> to \<open>all\<close> and then sets the key named by \<open>parameter\<close>, which is \<open>state\<close>
  again, to the user name: the call goes out with \<open>state=bob\<close>.
\<close>

theorem user_activity_state_overridden:
  "call_params (hd (snd (get_user_activity_issues example_config upstream_ok (Some ''alice'')
      [] ''bob'' ''state''))) = Some [(''state'', [PStr ''bob''])]"
  by (simp add: get_user_activity_issues_def Let_def md_copy_def md_setitem_def)

text \<open>
  Claim C9, amended. An unauthenticated caller gets 401 and no upstream call. For an
  authenticated caller exactly one GET call on the issues path is made; in its params
  \<open>state\<close> is the single value \<open>all\<close> (a caller-supplied state is replaced) whenever
  \<open>parameter\<close> is not itself \<open>state\<close>; \<open>labels\<close> is \<open>status-needsinfo-{username}\<close> when
  \<open>parameter\<close> is \<open>needsinfo\<close>, and otherwise the key named by \<open>parameter\<close> is the user
  name; every other key is as the caller sent it.
\<close>

theorem user_activity_params:
  "get_user_activity_issues cfg api_request None args username parameter = (Inl (Abort 401), [])
   \<and> (\<exists>params.
        get_user_activity_issues cfg api_request (Some u) args username parameter =
          (let c = \<lparr>call_method = ''get'', call_path = ''repos/'' @ ISSUES_PATH cfg,
                    call_params = Some params, call_data = None, call_mime = None\<rparr>
           in (Inr (api_request c), [c]))
        \<and> (parameter \<noteq> ''state'' \<longrightarrow> md_getlist params ''state'' = [PStr ''all''])
        \<and> (parameter = ''needsinfo'' \<longrightarrow>
             md_getlist params ''labels'' = [PStr (''status-needsinfo-'' @ username)])
        \<and> (parameter \<noteq> ''needsinfo'' \<longrightarrow> md_getlist params parameter = [PStr username])
        \<and> (\<forall>k. k \<noteq> ''state'' \<and> k \<noteq> ''labels'' \<and> k \<noteq> parameter \<longrightarrow>
               md_getlist params k = md_getlist (md_copy args) k))"
  by (simp add: get_user_activity_issues_def Let_def md_getlist_setitem)

theorem user_activity_params_witness:
  "\<exists>params.
     get_user_activity_issues example_config upstream_ok (Some ''alice'')
         [(''state'', [''open''])] ''bob'' ''creator'' =
       (Inr (''[]'', 200, []),
        [\<lparr>call_method = ''get'', call_path = ''repos/'' @ ISSUES_PATH example_config,
          call_params = Some params, call_data = None, call_mime = None\<rparr>])
     \<and> md_getlist params ''state'' = [PStr ''all'']
     \<and> md_getlist params ''creator'' = [PStr ''bob'']"
  using user_activity_params [where cfg = example_config and api_request = upstream_ok
      and args = "[(''state'', [''open''])]" and username = "''bob''"
      and parameter = "''creator''" and u = "''alice''"]
  by (auto simp add: upstream_ok_def Let_def)

section \<open>Listing by category\<close>

text \<open>
  Claim C6. A category that is one of the configured open-status names (and has its entry
  in the status table) leads to exactly one upstream call, with the milestone id of that
  entry added to the caller's params; the category \<open>closed\<close> (not itself configured as an
  open-status name) leads to exactly one upstream call with \<open>state\<close> set to \<open>closed\<close>; any
  other category is answered with 404 and no upstream call.
\<close>

theorem category_dispatch:
  "(issue_category \<in> set (OPEN_STATUSES cfg)
      \<and> map_of (STATUSES cfg) issue_category = Some d \<longrightarrow>
      get_issue_category cfg api_request args issue_category =
        (let c = \<lparr>call_method = ''get'', call_path = ''repos/'' @ ISSUES_PATH cfg,
                  call_params = Some (md_add (md_copy args) ''milestone'' (PInt (status_id d))),
                  call_data = None, call_mime = None\<rparr>
         in (Inr (api_request c), [c]))
      \<and> md_getlist (md_add (md_copy args) ''milestone'' (PInt (status_id d))) ''milestone''
          = md_getlist (md_copy args) ''milestone'' @ [PInt (status_id d)])
   \<and> (issue_category = ''closed'' \<and> ''closed'' \<notin> set (OPEN_STATUSES cfg) \<longrightarrow>
      get_issue_category cfg api_request args issue_category =
        (let c = \<lparr>call_method = ''get'', call_path = ''repos/'' @ ISSUES_PATH cfg,
                  call_params = Some (md_setitem (md_copy args) ''state'' (PStr ''closed'')),
                  call_data = None, call_mime = None\<rparr>
         in (Inr (api_request c), [c]))
      \<and> md_getlist (md_setitem (md_copy args) ''state'' (PStr ''closed'')) ''state''
          = [PStr ''closed''])
   \<and> (issue_category \<notin> set (OPEN_STATUSES cfg) \<and> issue_category \<noteq> ''closed'' \<longrightarrow>
      get_issue_category cfg api_request args issue_category = (Inl (Abort 404), []))"
  by (simp add: get_issue_category_def Let_def md_getlist_add md_getlist_setitem)

theorem category_dispatch_witness:
  "get_issue_category example_config upstream_ok [(''page'', [''2''])] ''needsinfo'' =
     (Inr (''[]'', 200, []),
      [\<lparr>call_method = ''get'', call_path = ''repos/webcompat/webcompat-tests/issues'',
        call_params = Some [(''page'', [PStr ''2'']), (''milestone'', [PInt 2])],
        call_data = None, call_mime = None\<rparr>])
   \<and> get_issue_category example_config upstream_ok [(''page'', [''2''])] ''closed'' =
     (Inr (''[]'', 200, []),
      [\<lparr>call_method = ''get'', call_path = ''repos/webcompat/webcompat-tests/issues'',
        call_params = Some [(''page'', [PStr ''2'']), (''state'', [PStr ''closed''])],
        call_data = None, call_mime = None\<rparr>])
   \<and> get_issue_category example_config upstream_ok [(''page'', [''2''])] ''bogus'' =
     (Inl (Abort 404), [])"
proof -
  have a: "''needsinfo'' \<in> set (OPEN_STATUSES example_config)
      \<and> map_of (STATUSES example_config) ''needsinfo''
          = Some \<lparr>status_id = 2, status_state = ''open''\<rparr>"
    by (simp add: example_config_def)
  have b: "''closed'' \<notin> set (OPEN_STATUSES example_config)"
    by (simp add: example_config_def)
  have c: "''bogus'' \<notin> set (OPEN_STATUSES example_config) \<and> ''bogus'' \<noteq> ''closed''"
    by (simp add: example_config_def)
  have m: "md_add (md_copy [(''page'', [''2''])]) ''milestone'' (PInt 2)
             = [(''page'', [PStr ''2'']), (''milestone'', [PInt 2])]"
    "md_setitem (md_copy [(''page'', [''2''])]) ''state'' (PStr ''closed'')
             = [(''page'', [PStr ''2'']), (''state'', [PStr ''closed''])]"
    by (simp_all add: md_add_def md_copy_def md_getlist_def md_setitem_def)
  show ?thesis
    using category_dispatch [of "''needsinfo''" example_config
            "\<lparr>status_id = 2, status_state = ''open''\<rparr>" upstream_ok "[(''page'', [''2''])]"]
          category_dispatch [of "''closed''" example_config
            "\<lparr>status_id = 2, status_state = ''open''\<rparr>" upstream_ok "[(''page'', [''2''])]"]
          category_dispatch [of "''bogus''" example_config
            "\<lparr>status_id = 2, status_state = ''open''\<rparr>" upstream_ok "[(''page'', [''2''])]"]
          a b c
    by (simp add: example_issues_path m upstream_ok_def Let_def)
qed

section \<open>Listing issues and searching\<close>

text \<open>
  The test \<open>params.get('q')\<close> is a truth test: a request \<open>?q=\<close> carries the parameter with
  an empty value and is passed through to the issues listing, also for a caller who is not
  logged in.
\<close>

theorem list_issues_empty_q_passes_through:
  "proxy_issues example_config (\<lambda>limit key. True) None (\<lambda>p. p) upstream_ok None
       [(''q'', [[]])] =
     (Inr (''[]'', 200, []),
      [\<lparr>call_method = ''get'', call_path = ''repos/webcompat/webcompat-tests/issues'',
        call_params = Some [(''q'', [PStr []])], call_data = None, call_mime = None\<rparr>])"
  by (simp add: proxy_issues_def Let_def md_copy_def md_get_def md_getlist_def
      ISSUES_PATH_def example_config_def upstream_ok_def)

text \<open>
  Claim C8, amended. When the first value of the parameter \<open>q\<close> is a non-empty string, an
  authenticated request is handled by the search view on that value: one call, on the
  search path and not on the issues path, or no call at all when the rate limit of the
  search view stops the request. An unauthenticated request is then answered with 404 and
  no upstream call. When \<open>q\<close> is absent or its first value is empty, the params are passed
  through unchanged to exactly one call on the issues path, whoever calls.
\<close>

theorem list_issues_dispatch:
  "(md_get (md_copy args) ''q'' = Some (PStr s) \<and> s \<noteq> [] \<longrightarrow>
      proxy_issues cfg within_limit session_username normalise api_request (Some u) args =
        get_search_results cfg within_limit session_username normalise api_request
          (Some (PStr s)) (Some (md_copy args)) args
      \<and> (\<exists>c. snd (proxy_issues cfg within_limit session_username normalise api_request
                    (Some u) args)
                = (if within_limit ''30/minute'' (limiter_key session_username)
                   then [c] else [])
              \<and> call_path c = ''search/issues''
              \<and> call_path c \<noteq> ''repos/'' @ ISSUES_PATH cfg)
      \<and> proxy_issues cfg within_limit session_username normalise api_request None args
          = (Inl (Abort 404), []))
   \<and> (md_get (md_copy args) ''q'' = None \<or> md_get (md_copy args) ''q'' = Some (PStr []) \<longrightarrow>
      proxy_issues cfg within_limit session_username normalise api_request user args =
        (let c = \<lparr>call_method = ''get'', call_path = ''repos/'' @ ISSUES_PATH cfg,
                  call_params = Some (md_copy args), call_data = None, call_mime = None\<rparr>
         in (Inr (api_request c), [c])))"
proof -
  let ?search = "get_search_results cfg within_limit session_username normalise api_request
          (Some (PStr s)) (Some (md_copy args)) args"
  have search: "proxy_issues cfg within_limit session_username normalise api_request
                  (Some u) args = ?search
      \<and> (\<exists>c. snd (proxy_issues cfg within_limit session_username normalise api_request
                    (Some u) args)
                = (if within_limit ''30/minute'' (limiter_key session_username)
                   then [c] else [])
              \<and> call_path c = ''search/issues''
              \<and> call_path c \<noteq> ''repos/'' @ ISSUES_PATH cfg)
      \<and> proxy_issues cfg within_limit session_username normalise api_request None args
          = (Inl (Abort 404), [])"
    if q: "md_get (md_copy args) ''q'' = Some (PStr s)" and s: "s \<noteq> []"
  proof -
    have ne: "md_copy args \<noteq> []"
      using q by (rule md_get_Some_nonempty)
    have eq: "proxy_issues cfg within_limit session_username normalise api_request
                (Some u) args = ?search"
      using q s by (simp add: proxy_issues_def Let_def)
    have rej: "proxy_issues cfg within_limit session_username normalise api_request None args
                 = (Inl (Abort 404), [])"
      using q s by (simp add: proxy_issues_def Let_def)
    have calls: "\<exists>c. snd ?search
                = (if within_limit ''30/minute'' (limiter_key session_username)
                   then [c] else [])
              \<and> call_path c = ''search/issues''
              \<and> call_path c \<noteq> ''repos/'' @ ISSUES_PATH cfg"
    proof (cases "within_limit ''30/minute'' (limiter_key session_username)")
      case True
      then show ?thesis
        by (simp add: get_search_results_given [where within_limit = within_limit
              and session_username = session_username, OF s ne True] Let_def)
    next
      case False
      have "call_path \<lparr>call_method = ''get'', call_path = ''search/issues'',
                call_params = None, call_data = None, call_mime = None\<rparr> = ''search/issues''"
        by simp
      with False show ?thesis
        by (simp add: get_search_results_over_limit [where within_limit = within_limit
              and session_username = session_username, OF False])
           (rule exI [of _ "\<lparr>call_method = ''get'', call_path = ''search/issues'',
                call_params = None, call_data = None, call_mime = None\<rparr>"], simp)
    qed
    from eq rej calls show ?thesis by simp
  qed
  have pass: "proxy_issues cfg within_limit session_username normalise api_request user args =
        (let c = \<lparr>call_method = ''get'', call_path = ''repos/'' @ ISSUES_PATH cfg,
                  call_params = Some (md_copy args), call_data = None, call_mime = None\<rparr>
         in (Inr (api_request c), [c]))"
    if "md_get (md_copy args) ''q'' = None \<or> md_get (md_copy args) ''q'' = Some (PStr [])"
    using that by (auto simp add: proxy_issues_def Let_def)
  from search pass show ?thesis by blast
qed

theorem list_issues_dispatch_witness:
  "snd (proxy_issues example_config (\<lambda>limit key. True) None (\<lambda>p. p) upstream_ok
          (Some ''alice'') [(''q'', [''foo''])])
     = [\<lparr>call_method = ''get'', call_path = ''search/issues'',
         call_params = Some [(''q'', [PStr ''foo repo:webcompat/webcompat-tests is:issue''])],
         call_data = None, call_mime = Some JSON_MIME_HTML\<rparr>]
   \<and> snd (proxy_issues example_config (\<lambda>limit key. False) None (\<lambda>p. p) upstream_ok
          (Some ''alice'') [(''q'', [''foo''])]) = []
   \<and> proxy_issues example_config (\<lambda>limit key. True) None (\<lambda>p. p) upstream_ok None
        [(''q'', [''foo''])]
     = (Inl (Abort 404), [])
   \<and> proxy_issues example_config (\<lambda>limit key. True) None (\<lambda>p. p) upstream_ok None
        [(''page'', [''2''])]
     = (Inr (''[]'', 200, []),
        [\<lparr>call_method = ''get'', call_path = ''repos/webcompat/webcompat-tests/issues'',
          call_params = Some [(''page'', [PStr ''2''])], call_data = None, call_mime = None\<rparr>])"
proof -
  have q: "md_get (md_copy [(''q'', [''foo''])]) ''q'' = Some (PStr ''foo'')"
    by (simp add: md_get_def md_getlist_def md_copy_def)
  have noq: "md_get (md_copy [(''page'', [''2''])]) ''q'' = None"
    by (simp add: md_get_def md_getlist_def md_copy_def)
  have set: "md_setitem (md_copy [(''q'', [''foo''])]) ''q'' v = [(''q'', [v])]" for v
    by (simp add: md_setitem_def md_copy_def)
  have cp: "md_copy [(''page'', [''2''])] = [(''page'', [PStr ''2''])]"
    by (simp add: md_copy_def)
  have ne: "md_copy [(''q'', [''foo''])] \<noteq> []"
    by (simp add: md_copy_def)
  have given: "get_search_results example_config (\<lambda>limit key. True) None (\<lambda>p. p) upstream_ok
          (Some (PStr ''foo'')) (Some (md_copy [(''q'', [''foo''])])) [(''q'', [''foo''])]
        = (Inr (''[]'', 200, []),
           [\<lparr>call_method = ''get'', call_path = ''search/issues'',
             call_params = Some [(''q'', [PStr ''foo repo:webcompat/webcompat-tests is:issue''])],
             call_data = None, call_mime = Some JSON_MIME_HTML\<rparr>])"
    using get_search_results_given [where within_limit = "\<lambda>limit key. True"
        and session_username = None and s = "''foo''" and p = "md_copy [(''q'', [''foo''])]"
        and cfg = example_config and normalise = "\<lambda>p. p" and api_request = upstream_ok
        and args = "[(''q'', [''foo''])]"] ne
    by (simp add: set Let_def example_repo_path upstream_ok_def)
  show ?thesis
    using list_issues_dispatch [where args = "[(''q'', [''foo''])]" and s = "''foo''"
            and cfg = example_config and normalise = "\<lambda>p. p"
            and within_limit = "\<lambda>limit key. True" and session_username = None
            and api_request = upstream_ok and u = "''alice''" and user = None]
          list_issues_dispatch [where args = "[(''q'', [''foo''])]" and s = "''foo''"
            and cfg = example_config and normalise = "\<lambda>p. p"
            and within_limit = "\<lambda>limit key. False" and session_username = None
            and api_request = upstream_ok and u = "''alice''" and user = None]
          list_issues_dispatch [where args = "[(''page'', [''2''])]" and s = "''foo''"
            and cfg = example_config and normalise = "\<lambda>p. p"
            and within_limit = "\<lambda>limit key. True" and session_username = None
            and api_request = upstream_ok and u = "''alice''" and user = None]
          q noq
    by (simp add: given cp Let_def example_issues_path upstream_ok_def
        get_search_results_over_limit)
qed




section \<open>Comments\<close>

text \<open>
  Claim C1. A comments GET whose upstream call answers 304: the view compares the slice
  \<open>comments_data[1:2]\<close>, a tuple, with \<open>304\<close>, so the branch written for 304 is never
  taken and the upstream response is rendered as for any other status.
\<close>

theorem comments_not_modified_is_rendered:
  "proxy_comments example_config (\<lambda>d. d) render_html relay_headers upstream_not_modified
       ''GET'' None [] 5 [] =
     (Inr (''<div></div>'', 304, [(''content-type'', ''text/html'')]),
      [\<lparr>call_method = ''get'',
        call_path = ''repos/webcompat/webcompat-tests/issues/5/comments'',
        call_params = Some [(''per_page'', [PInt 100])], call_data = None,
        call_mime = Some ''application/vnd.github.v3.html+json''\<rparr>])
   \<and> fst (proxy_comments example_config (\<lambda>d. d) render_html relay_headers
            upstream_not_modified ''GET'' None [] 5 [])
     \<noteq> Inr ([], 304, [(''content-type'', ''text/html''), (''etag'', ''abc'')])"
  by (simp add: proxy_comments_get_branch example_issues_path str_nat_5 Let_def
      upstream_not_modified_def render_html_def HTML_MIME_def JSON_MIME_HTML_def
      md_add_def md_copy_def md_getlist_def)

text \<open>
  A POST to the comments route from a caller who is not logged in is not rejected: it
  takes the other branch and fetches the comments upstream.
\<close>

theorem comments_post_unauthenticated_calls_upstream:
  "proxy_comments example_config (\<lambda>d. d) render_html relay_headers upstream_ok
       ''POST'' None [] 5 ''{}'' =
     (Inr (''<div>[]</div>'', 200, [(''content-type'', ''text/html'')]),
      [\<lparr>call_method = ''get'',
        call_path = ''repos/webcompat/webcompat-tests/issues/5/comments'',
        call_params = Some [(''per_page'', [PInt 100])], call_data = None,
        call_mime = Some ''application/vnd.github.v3.html+json''\<rparr>])"
  by (simp add: proxy_comments_get_branch example_issues_path str_nat_5 Let_def
      upstream_ok_def render_html_def HTML_MIME_def JSON_MIME_HTML_def
      md_add_def md_copy_def md_getlist_def)

text \<open>
  Claim C3, amended. An unauthenticated POST to the comments route makes no upstream POST
  call and is not rejected: it is handled exactly as an unauthenticated GET of the same
  comments, which makes exactly one upstream call, a GET on the comments path without a
  body, and answers with a response.
\<close>

theorem comments_post_unauthenticated_served_as_get:
  "proxy_comments cfg get_comment_data get_html_comments get_response_headers api_request
       ''POST'' None args number request_data =
     proxy_comments cfg get_comment_data get_html_comments get_response_headers api_request
       ''GET'' None args number request_data
   \<and> (\<exists>c. snd (proxy_comments cfg get_comment_data get_html_comments get_response_headers
              api_request ''POST'' None args number request_data) = [c]
        \<and> call_method c = ''get''
        \<and> call_path c = ''repos/'' @ ISSUES_PATH cfg @ ''/'' @ str_nat number @ ''/comments''
        \<and> call_data c = None)
   \<and> (\<exists>r. fst (proxy_comments cfg get_comment_data get_html_comments get_response_headers
              api_request ''POST'' None args number request_data) = Inr r)"
proof -
  have triple: "\<exists>content status_code hdrs. r = (content, status_code, hdrs)" for r :: response
    by (cases r) simp
  show ?thesis
    by (simp add: proxy_comments_get_branch Let_def triple)
qed

text \<open>
  Claim C7. A comments GET for \<open>?per_page=50\<close>: \<open>params.update({'per_page': 100})\<close> on a
  \<open>MultiDict\<close> appends \<open>100\<close> to the values of \<open>per_page\<close> and leaves the caller's value in
  front, so the value of \<open>per_page\<close> in the outbound params (\<open>params['per_page']\<close>,
  \<open>params.get('per_page')\<close>) is still \<open>50\<close>.
\<close>

theorem comments_per_page_not_overridden:
  "map (\<lambda>c. map_option (\<lambda>p. (md_get p ''per_page'', md_getlist p ''per_page''))
              (call_params c))
       (snd (proxy_comments example_config (\<lambda>d. d) render_html relay_headers upstream_ok
               ''GET'' None [(''per_page'', [''50''])] 5 []))
     = [Some (Some (PStr ''50''), [PStr ''50'', PInt 100])]"
  by (simp add: proxy_comments_get_branch Let_def md_add_def md_copy_def md_getlist_def
      md_get_def)

end
